theory Spec2Isabelle
  imports Main
begin

section \<open>Strings and numbers of the host language\<close>

text \<open>
  The player is a React component written in TypeScript. Its strings are modelled as
  \<^typ>\<open>string\<close>, one character for each code unit. The four string methods the
  component calls are written out below with the meaning they have for a string
  argument: \<open>startsWith\<close> and \<open>endsWith\<close> compare a prefix and a suffix,
  \<open>includes\<close> (here \<open>includes_str\<close>) searches for a substring, and \<open>replace\<close> with
  a string pattern rewrites the first occurrence only.
\<close>

definition startsWith :: "string \<Rightarrow> string \<Rightarrow> bool" where
  "startsWith s p = (take (length p) s = p)"

definition endsWith :: "string \<Rightarrow> string \<Rightarrow> bool" where
  "endsWith s p = (length p \<le> length s \<and> drop (length s - length p) s = p)"

fun includes_str :: "string \<Rightarrow> string \<Rightarrow> bool" where
  "includes_str [] p = (p = [])"
| "includes_str (c # cs) p = (startsWith (c # cs) p \<or> includes_str cs p)"

fun replace :: "string \<Rightarrow> string \<Rightarrow> string \<Rightarrow> string" where
  "replace [] p r = (if p = [] then r else [])"
| "replace (c # cs) p r =
     (if startsWith (c # cs) p then r @ drop (length p) (c # cs) else c # replace cs p r)"

text \<open>
  A template literal turns the number \<open>Date.now()\<close>, a non-negative integer count of
  milliseconds, into its decimal digits.
\<close>

definition digit :: "nat \<Rightarrow> char" where
  "digit d = ''0123456789'' ! d"

function toString :: "nat \<Rightarrow> string" where
  "toString n = (if n < 10 then [digit n] else toString (n div 10) @ [digit (n mod 10)])"
  by pat_completeness auto
termination
  by (relation "measure id") auto

declare toString.simps [simp del]

section \<open>Station records\<close>

text \<open>
  Of the fields of \<open>Station\<close> (types.ts) the playback logic reads the identity and the
  two stream addresses; the remaining fields are only displayed.
\<close>

record Station =
  stationuuid :: string
  url :: string
  url_resolved :: string

section \<open>The stream resolver\<close>

text \<open>
  \<open>getUrlForStage\<close> reads two values besides its arguments: the protocol of the hosting
  page (\<open>window.location.protocol\<close>) and, at stage 5, the clock (\<open>Date.now()\<close>). Both are
  parameters here. The expression \<open>s.url_resolved || s.url\<close> takes \<open>s.url\<close> when the
  resolved address is the empty string.
\<close>

definition getUrlForStage :: "string \<Rightarrow> nat \<Rightarrow> Station \<Rightarrow> nat \<Rightarrow> string" where
  "getUrlForStage protocol now s stage =
     (let url0 = (if stage = 0 \<or> stage = 1 \<or> stage = 3
                  then (if url_resolved s \<noteq> [] then url_resolved s else url s)
                  else url s);
          url1 = (if stage \<le> 1 \<and> startsWith url0 ''http://'' \<and> protocol = ''https:''
                  then replace url0 ''http://'' ''https://''
                  else url0)
      in if stage = 5
         then (let url2 = (if \<not> endsWith url1 '';'' \<and> \<not> includes_str url1 ''?''
                           then (if endsWith url1 ''/'' then url1 @ '';'' else url1 @ ''/;'')
                           else url1);
                   sep = (if includes_str url2 ''?'' then ''&'' else ''?'')
               in url2 @ sep @ ''cb='' @ toString now)
         else url1)"

section \<open>The six-stage player\<close>

text \<open>
  The component keeps React state (\<open>useState\<close>), receives two props from the
  application, and holds references to the audio element and to the objects built around
  it. A render fixes a snapshot of props and state; every handler and effect created by
  that render reads the snapshot, while a state setter writes to the state the next
  render will see. A \<open>view\<close> is such a snapshot. The volume, the amplitude of the
  visualizer and the share indicator do not take part in playback control and are left
  out.
\<close>

datatype error_type = NETWORK | DECODE | ACCESS | OFFLINE | UNKNOWN

record playback_error =
  message :: string
  type :: error_type

record view =
  station :: "Station option"
  isPlaying :: bool
  error :: "playback_error option"
  isBuffering :: bool
  isCorsBlocked :: bool
  retryStage :: nat

text \<open>
  A play request is the promise returned by \<open>safePlay()\<close>. The source-attach effect
  chains \<open>.catch\<close> on it; the manifest handler of the adapter does not.
\<close>

datatype play_request = WithCatch | NoCatch

datatype play_outcome = Fulfilled | Rejected string

text \<open>
  The references: the attributes of the audio element that the component writes
  (\<open>crossOrigin\<close>, \<open>src\<close>), the adapter instance (\<open>hlsRef\<close>, with the address it
  loaded), the analysis graph (\<open>audioCtxRef\<close>, \<open>analyserRef\<close>, \<open>sourceRef\<close>), whether
  the element carries the component's event listeners, and the play requests that have
  not settled yet.
\<close>

record refs =
  crossOrigin :: "string option"
  src :: string
  hlsRef :: "string option"
  audioCtxRef :: bool
  analyserRef :: bool
  sourceRef :: bool
  listening :: bool
  plays :: "play_request list"

text \<open>
  What the browser supplies: the protocol of the page, the clock, whether hls.js is
  supported, and whether building the analysis graph throws.
\<close>

record env =
  protocol :: string
  now :: nat
  hlsSupported :: bool
  tapThrows :: bool

record player =
  rendered :: view
  pending :: view
  audio :: refs

subsection \<open>Handlers\<close>

text \<open>
  Each handler takes the snapshot \<open>c\<close> of the render that created it and the state \<open>p\<close>
  it updates. \<open>setRetryStage(prev => prev + 1)\<close> is an update of \<open>p\<close>; the test
  \<open>retryStage >= 5\<close> reads \<open>c\<close>. The argument \<open>mediaError\<close> is the code of
  \<open>audio.error\<close>, absent when \<open>audio.error\<close> is null.
\<close>

definition handlePlaybackError :: "env \<Rightarrow> refs \<Rightarrow> nat option \<Rightarrow> view \<Rightarrow> view \<Rightarrow> view" where
  "handlePlaybackError e a mediaError c p =
     (if retryStage c \<ge> 5
      then p\<lparr>isBuffering := False,
             error := Some
               (if protocol e = ''https:'' \<and> startsWith (src a) ''http://''
                then \<lparr>message = ''Security Block: Insecure stream.'', type = ACCESS\<rparr>
                else case mediaError of
                    None \<Rightarrow> \<lparr>message = ''This frequency is unreachable.'', type = UNKNOWN\<rparr>
                  | Some code \<Rightarrow>
                      if code = 2
                      then \<lparr>message = ''Network error: Connection failed.'', type = NETWORK\<rparr>
                      else if code = 3
                      then \<lparr>message = ''Format unsupported.'', type = DECODE\<rparr>
                      else \<lparr>message = ''Station offline or format incompatible.'',
                             type = OFFLINE\<rparr>)\<rparr>
      else p\<lparr>retryStage := retryStage p + 1\<rparr>)"

definition handleCanPlay :: "view \<Rightarrow> view" where
  "handleCanPlay p = p\<lparr>isBuffering := False, error := None\<rparr>"

definition handleWaiting :: "view \<Rightarrow> view" where
  "handleWaiting p = p\<lparr>isBuffering := True\<rparr>"

text \<open>
  The prop \<open>onTogglePlay\<close> is the application's \<open>togglePlay\<close>, that is
  \<open>setIsPlaying(prev => !prev)\<close>.
\<close>

definition onTogglePlay :: "view \<Rightarrow> view" where
  "onTogglePlay p = p\<lparr>isPlaying := \<not> isPlaying p\<rparr>"

definition handleManualRetry :: "view \<Rightarrow> view \<Rightarrow> view" where
  "handleManualRetry c p =
     (let p1 = p\<lparr>retryStage := 0, error := None, isBuffering := True\<rparr>
      in if \<not> isPlaying c then onTogglePlay p1 else p1)"

text \<open>
  \<open>safePlay\<close> is asynchronous. Up to its \<open>await\<close> it checks that the element exists
  (it does once a station is rendered), that the intent is to play and that no error is
  shown, and calls \<open>audio.play()\<close>. After the \<open>await\<close> it clears the error on success,
  swallows a rejection named \<open>AbortError\<close> and throws any other one again; the thrown
  error's name is the left value.
\<close>

definition safePlay_starts :: "view \<Rightarrow> bool" where
  "safePlay_starts c = (\<not> (station c = None \<or> \<not> isPlaying c \<or> error c \<noteq> None))"

definition safePlay_settles :: "play_outcome \<Rightarrow> view \<Rightarrow> string + view" where
  "safePlay_settles outcome p =
     (case outcome of
        Fulfilled \<Rightarrow> Inr (p\<lparr>error := None\<rparr>)
      | Rejected name \<Rightarrow> if name \<noteq> ''AbortError'' then Inl name else Inr p)"

text \<open>
  The two continuations of a play request: \<open>.catch(() => setRetryStage(prev => prev + 1))\<close>
  in the source-attach effect, and none in the manifest handler, where a thrown error is
  an unhandled rejection.
\<close>

definition playSettled :: "play_request \<Rightarrow> play_outcome \<Rightarrow> view \<Rightarrow> view" where
  "playSettled r outcome p =
     (case safePlay_settles outcome p of
        Inr p' \<Rightarrow> p'
      | Inl name \<Rightarrow> (case r of WithCatch \<Rightarrow> p\<lparr>retryStage := retryStage p + 1\<rparr> | NoCatch \<Rightarrow> p))"

text \<open>The error event of hls.js carries \<open>data.fatal\<close> and \<open>data.type\<close>.\<close>

datatype ErrorTypes = NETWORK_ERROR | MEDIA_ERROR | KEY_SYSTEM_ERROR | MUX_ERROR | OTHER_ERROR

record hls_error_data =
  fatal :: bool
  errorType :: ErrorTypes

definition hlsOnError :: "hls_error_data \<Rightarrow> view \<Rightarrow> view" where
  "hlsOnError data p = (if fatal data then p\<lparr>retryStage := retryStage p + 1\<rparr> else p)"

subsection \<open>Effects\<close>

text \<open>
  An effect runs after a render, with the snapshot \<open>c\<close> of that render. It writes to the
  references at once and to the state through setters, so it maps a pair of the state to
  come and the references to such a pair. The audio element and the canvas are mounted
  exactly when the rendered station is not null.

  The visualizer effect builds the analysis graph through \<open>initAudioContext\<close>; the
  drawing loop it starts reads the graph and is not modelled.
\<close>

definition initAudioContext :: "env \<Rightarrow> view \<times> refs \<Rightarrow> view \<times> refs" where
  "initAudioContext e = (\<lambda>(p, a).
     if \<not> audioCtxRef a
     then (if tapThrows e
           then (p\<lparr>isCorsBlocked := True\<rparr>, a)
           else (p\<lparr>isCorsBlocked := False\<rparr>,
                 a\<lparr>sourceRef := True, audioCtxRef := True, analyserRef := True\<rparr>))
     else (p, a))"

definition visualizerEffect :: "env \<Rightarrow> view \<Rightarrow> view \<times> refs \<Rightarrow> view \<times> refs" where
  "visualizerEffect e c st =
     (if station c = None then st
      else if isPlaying c \<and> error c = None
      then (if \<not> isCorsBlocked c then initAudioContext e st else st)
      else st)"

text \<open>
  The source-attach effect. \<open>audio.pause()\<close> and \<open>audio.load()\<close> make the browser
  reject the play requests still in flight with \<open>AbortError\<close>; they stay in \<open>plays\<close>
  until that rejection is delivered. The field \<open>src\<close> holds the string the effect
  writes. The getter \<open>audio.src\<close>, which the error handler reads, returns that address
  as the browser parsed it, with the scheme in lower case; the two agree on absolute
  addresses written with a lower-case scheme, and the model does not tell them apart.
\<close>

definition attachEffect :: "env \<Rightarrow> view \<Rightarrow> view \<times> refs \<Rightarrow> view \<times> refs" where
  "attachEffect e c = (\<lambda>(p, a).
     case station c of
       None \<Rightarrow> (p, a)
     | Some s \<Rightarrow>
         (let a1 = a\<lparr>hlsRef := None\<rparr>;
              p1 = p\<lparr>isBuffering := True\<rparr>;
              a2 = a1\<lparr>crossOrigin := (if retryStage c \<ge> 3 then None else Some ''anonymous'')\<rparr>;
              a3 = a2\<lparr>src := []\<rparr>;
              streamUrl = getUrlForStage (protocol e) (now e) s (retryStage c)
          in if includes_str streamUrl ''.m3u8'' \<and> hlsSupported e \<and> retryStage c = 0
             then (p1, a3\<lparr>hlsRef := Some streamUrl\<rparr>)
             else (p1, a3\<lparr>src := streamUrl,
                          plays := (if isPlaying c \<and> safePlay_starts c
                                    then plays a3 @ [WithCatch] else plays a3)\<rparr>)))"

text \<open>
  The listener effect removes the listeners of the previous run and, when the element is
  mounted, adds those of this render.
\<close>

definition listenerEffect :: "view \<Rightarrow> view \<times> refs \<Rightarrow> view \<times> refs" where
  "listenerEffect c = (\<lambda>(p, a). (p, a\<lparr>listening := (station c \<noteq> None)\<rparr>))"

definition resetEffect :: "view \<times> refs \<Rightarrow> view \<times> refs" where
  "resetEffect = (\<lambda>(p, a). (p\<lparr>retryStage := 0, error := None\<rparr>, a))"

text \<open>
  A render commits the state to come as the new snapshot and runs, in the order of the
  source, the effects whose dependencies differ from the previous snapshot:
  \<open>[isPlaying, error, isCorsBlocked]\<close> for the visualizer,
  \<open>[station, retryStage, isPlaying, getUrlForStage, safePlay]\<close> for the source attach
  (\<open>getUrlForStage\<close> never changes, \<open>safePlay\<close> changes with \<open>isPlaying\<close> and \<open>error\<close>),
  \<open>[retryStage]\<close> for the listeners and \<open>[station?.stationuuid]\<close> for the reset.
  Dependencies are compared by value here. React compares the station and the error
  objects by identity, so the browser also runs the source-attach effect again when a
  handler stores a new error object with the same fields or the application passes
  another station object with the same fields; those extra runs are not part of the
  model.
\<close>

definition render :: "env \<Rightarrow> player \<Rightarrow> player" where
  "render e s =
     (let prev = rendered s;
          c = pending s;
          st0 = (c, audio s);
          st1 = (if isPlaying c \<noteq> isPlaying prev \<or> error c \<noteq> error prev
                    \<or> isCorsBlocked c \<noteq> isCorsBlocked prev
                 then visualizerEffect e c st0 else st0);
          st2 = (if station c \<noteq> station prev \<or> retryStage c \<noteq> retryStage prev
                    \<or> isPlaying c \<noteq> isPlaying prev \<or> error c \<noteq> error prev
                 then attachEffect e c st1 else st1);
          st3 = (if retryStage c \<noteq> retryStage prev then listenerEffect c st2 else st2);
          st4 = (if map_option stationuuid (station c) \<noteq> map_option stationuuid (station prev)
                 then resetEffect st3 else st3)
      in \<lparr>rendered = c, pending = fst st4, audio = snd st4\<rparr>)"

text \<open>
  The application mounts the player once, with no station and not playing. No element
  exists then, so the effects of the first render leave everything as it is.
\<close>

definition mounted :: player where
  "mounted =
     (let v = \<lparr>station = None, isPlaying = False, error = None, isBuffering = False,
               isCorsBlocked = False, retryStage = 0\<rparr>
      in \<lparr>rendered = v, pending = v,
          audio = \<lparr>crossOrigin = None, src = [], hlsRef = None, audioCtxRef = False,
                    analyserRef = False, sourceRef = False, listening = False, plays = []\<rparr>\<rparr>)"

subsection \<open>Events\<close>

text \<open>
  The application selects a station (\<open>setCurrentStation\<close>), sets or toggles the playing
  intent; React renders; the audio element reports \<open>error\<close>, \<open>canplay\<close>, \<open>waiting\<close> or
  \<open>stalled\<close>; the adapter reports a parsed manifest or an error; a play request settles;
  the user presses the reset button. Element events reach a handler only while the
  listeners are attached, adapter events only while an adapter instance exists.
\<close>

datatype event =
    SetStation Station
  | SetPlaying bool
  | TogglePlay
  | Render
  | MediaError "nat option"
  | CanPlay
  | Waiting
  | HlsManifestParsed
  | HlsError hls_error_data
  | PlaySettled nat play_outcome
  | ManualRetry

definition remove_nth :: "nat \<Rightarrow> 'a list \<Rightarrow> 'a list" where
  "remove_nth i xs = take i xs @ drop (Suc i) xs"

fun step :: "env \<Rightarrow> event \<Rightarrow> player \<Rightarrow> player" where
  "step e (SetStation st) s = s\<lparr>pending := (pending s)\<lparr>station := Some st\<rparr>\<rparr>"
| "step e (SetPlaying b) s = s\<lparr>pending := (pending s)\<lparr>isPlaying := b\<rparr>\<rparr>"
| "step e TogglePlay s = s\<lparr>pending := onTogglePlay (pending s)\<rparr>"
| "step e Render s = render e s"
| "step e (MediaError mediaError) s =
     (if listening (audio s)
      then s\<lparr>pending := handlePlaybackError e (audio s) mediaError (rendered s) (pending s)\<rparr>
      else s)"
| "step e CanPlay s =
     (if listening (audio s) then s\<lparr>pending := handleCanPlay (pending s)\<rparr> else s)"
| "step e Waiting s =
     (if listening (audio s) then s\<lparr>pending := handleWaiting (pending s)\<rparr> else s)"
| "step e HlsManifestParsed s =
     (if hlsRef (audio s) \<noteq> None \<and> isPlaying (rendered s) \<and> safePlay_starts (rendered s)
      then s\<lparr>audio := (audio s)\<lparr>plays := plays (audio s) @ [NoCatch]\<rparr>\<rparr>
      else s)"
| "step e (HlsError data) s =
     (if hlsRef (audio s) \<noteq> None then s\<lparr>pending := hlsOnError data (pending s)\<rparr> else s)"
| "step e (PlaySettled i outcome) s =
     (if i < length (plays (audio s))
      then s\<lparr>pending := playSettled (plays (audio s) ! i) outcome (pending s),
             audio := (audio s)\<lparr>plays := remove_nth i (plays (audio s))\<rparr>\<rparr>
      else s)"
| "step e ManualRetry s = s\<lparr>pending := handleManualRetry (rendered s) (pending s)\<rparr>"

fun run :: "(env \<times> event) list \<Rightarrow> player \<Rightarrow> player" where
  "run [] s = s"
| "run ((e, ev) # evs) s = run evs (step e ev s)"

section \<open>The three-stage player\<close>





section \<open>Sample inputs\<close>

text \<open>
  A browser on a secure page with hls.js available, at two clock readings; three
  stations: one with plain-HTTP addresses, one with HTTPS addresses, one whose address
  is a playlist of segments; and the rejection a browser gives a play request whose
  source it cannot load.
\<close>

abbreviation (input) securePage :: env where
  "securePage \<equiv>
     \<lparr>protocol = ''https:'', now = 1730000000000, hlsSupported = True, tapThrows = False\<rparr>"

abbreviation (input) taintedPage :: env where
  "taintedPage \<equiv>
     \<lparr>protocol = ''https:'', now = 1730000000000, hlsSupported = True, tapThrows = True\<rparr>"

abbreviation (input) radioA :: Station where
  "radioA \<equiv> \<lparr>stationuuid = ''a'', url = ''http://radio.example/live'',
               url_resolved = ''http://cdn.example/live.mp3''\<rparr>"

abbreviation (input) radioB :: Station where
  "radioB \<equiv> \<lparr>stationuuid = ''b'', url = ''https://b.example/stream'',
               url_resolved = ''https://edge.b.example/stream''\<rparr>"

abbreviation (input) radioH :: Station where
  "radioH \<equiv> \<lparr>stationuuid = ''h'', url = ''https://h.example/live.m3u8'',
               url_resolved = ''https://h.example/live.m3u8''\<rparr>"

abbreviation (input) notSupported :: event where
  "notSupported \<equiv> PlaySettled 0 (Rejected ''NotSupportedError'')"

abbreviation (input) on :: "env \<Rightarrow> event list \<Rightarrow> (env \<times> event) list" where
  "on e evs \<equiv> map (Pair e) evs"

section \<open>Auxiliary facts\<close>




lemma digit_inj: "d < 10 \<Longrightarrow> d' < 10 \<Longrightarrow> digit d = digit d' \<Longrightarrow> d = d'"
proof -
  assume a: "d < 10" "d' < 10" "digit d = digit d'"
  have dist: "distinct ''0123456789''" by simp
  have len: "length ''0123456789'' = 10" by simp
  from nth_eq_iff_index_eq [OF dist, of d d'] a len show ?thesis
    by (simp only: digit_def)
qed

lemma toString_small: "n < 10 \<Longrightarrow> toString n = [digit n]"
  by (subst toString.simps) simp

lemma toString_large:
  "\<not> n < 10 \<Longrightarrow> toString n = toString (n div 10) @ [digit (n mod 10)]"
  by (subst toString.simps) simp

lemma toString_nonempty: "toString n \<noteq> []"
  by (cases "n < 10") (simp_all add: toString_small toString_large)

lemma toString_inj: "toString n = toString m \<Longrightarrow> n = m"
proof (induction n arbitrary: m rule: toString.induct)
  case (1 n)
  show ?case
  proof (cases "n < 10")
    case n_small: True
    show ?thesis
    proof (cases "m < 10")
      case True
      with n_small "1.prems" have "digit n = digit m"
        by (simp add: toString_small)
      with n_small True show ?thesis by (rule digit_inj)
    next
      case False
      with n_small "1.prems" have "toString (m div 10) = []"
        by (simp add: toString_small toString_large)
      then show ?thesis by (simp add: toString_nonempty)
    qed
  next
    case n_large: False
    show ?thesis
    proof (cases "m < 10")
      case True
      with n_large "1.prems" have "toString (n div 10) = []"
        by (simp add: toString_small toString_large)
      then show ?thesis by (simp add: toString_nonempty)
    next
      case False
      with n_large "1.prems" have eq: "toString (n div 10) = toString (m div 10)"
        and dg: "digit (n mod 10) = digit (m mod 10)"
        by (simp_all add: toString_large)
      from "1.IH" [OF n_large eq] have q: "n div 10 = m div 10" .
      have "n mod 10 < 10" "m mod 10 < 10" by simp_all
      then have r: "n mod 10 = m mod 10" using dg by (rule digit_inj)
      have "n = 10 * (n div 10) + n mod 10" by simp
      also have "\<dots> = 10 * (m div 10) + m mod 10" by (simp only: q r)
      also have "\<dots> = m" by simp
      finally show ?thesis .
    qed
  qed
qed

lemma getUrlForStage_final:
  "\<exists>pre. \<forall>t. getUrlForStage p t s 5 = pre @ ''cb='' @ toString t"
  by (simp add: getUrlForStage_def Let_def)

lemmas model_defs = mounted_def render_def Let_def attachEffect_def visualizerEffect_def
  initAudioContext_def listenerEffect_def resetEffect_def safePlay_starts_def
  safePlay_settles_def playSettled_def getUrlForStage_def startsWith_def endsWith_def
  remove_nth_def toString.simps digit_def handlePlaybackError_def hlsOnError_def
  handleCanPlay_def handleWaiting_def handleManualRetry_def onTogglePlay_def

section \<open>The resolver\<close>

text \<open>
  C4, against the claim as stated: at stage 5 the address embeds the clock reading, so
  two evaluations for the same station and stage, one millisecond apart, differ.
\<close>

theorem getUrlForStage_depends_on_clock:
  "getUrlForStage ''https:'' 1730000000000 radioA 5
     \<noteq> getUrlForStage ''https:'' 1730000000001 radioA 5"
  by (simp add: getUrlForStage_def Let_def startsWith_def endsWith_def toString.simps digit_def)

text \<open>
  C4, amended: for every station and every stage other than 5, the address is fixed by
  the station, the stage and the protocol of the hosting page, whatever the clock reads.
  At stage 5 the address ends in \<open>cb=\<close> followed by the clock reading, so that any two
  evaluations at different clock readings return different addresses. The resolver is a
  function: it changes no state and reaches no network.
\<close>

theorem getUrlForStage_clock_dependence:
  "(stage \<noteq> 5 \<longrightarrow> getUrlForStage p t1 s stage = getUrlForStage p t2 s stage)
   \<and> (t1 \<noteq> t2 \<longrightarrow> getUrlForStage p t1 s 5 \<noteq> getUrlForStage p t2 s 5)
   \<and> endsWith (getUrlForStage p t1 s 5) (''cb='' @ toString t1)"
proof -
  obtain pre where pre: "\<And>t. getUrlForStage p t s 5 = pre @ ''cb='' @ toString t"
    using getUrlForStage_final by blast
  have a: "stage \<noteq> 5 \<longrightarrow> getUrlForStage p t1 s stage = getUrlForStage p t2 s stage"
    by (simp add: getUrlForStage_def Let_def)
  have b: "t1 \<noteq> t2 \<longrightarrow> getUrlForStage p t1 s 5 \<noteq> getUrlForStage p t2 s 5"
    using toString_inj [of t1 t2] by (auto simp: pre)
  have c: "endsWith (getUrlForStage p t1 s 5) (''cb='' @ toString t1)"
    by (simp add: pre endsWith_def)
  from a b c show ?thesis by blast
qed

theorem getUrlForStage_clock_dependence_witness:
  "(2::nat) \<noteq> 5
   \<and> getUrlForStage ''https:'' 1730000000000 radioA 2
       = getUrlForStage ''https:'' 1730000000001 radioA 2
   \<and> (1730000000000::nat) \<noteq> 1730000000001
   \<and> getUrlForStage ''https:'' 1730000000000 radioA 5
       \<noteq> getUrlForStage ''https:'' 1730000000001 radioA 5"
  using getUrlForStage_clock_dependence [of 2 "''https:''" 1730000000000 radioA 1730000000001]
  by simp



section \<open>Escalation of the retry stage\<close>

text \<open>
  C1, evaluated on the code: a station whose stream cannot be loaded, selected on a
  secure page. Each play request is rejected with \<open>NotSupportedError\<close>, and each
  rejection reaches \<open>.catch(() => setRetryStage(prev => prev + 1))\<close>, which has no test
  of the stage. After five rejections the player renders stage 5; the sixth moves the
  stage to 6 and shows no error.
\<close>

theorem retryStage_exceeds_final_stage:
  "retryStage (rendered (run (on securePage
       [SetStation radioA, SetPlaying True, Render, notSupported, Render, notSupported,
        Render, notSupported, Render, notSupported, Render, notSupported, Render]) mounted)) = 5
   \<and> retryStage (pending (run (on securePage
       [SetStation radioA, SetPlaying True, Render, notSupported, Render, notSupported,
        Render, notSupported, Render, notSupported, Render, notSupported, Render,
        notSupported]) mounted)) = 6
   \<and> error (pending (run (on securePage
       [SetStation radioA, SetPlaying True, Render, notSupported, Render, notSupported,
        Render, notSupported, Render, notSupported, Render, notSupported, Render,
        notSupported]) mounted)) = None"
  by (simp add: model_defs)

theorem retryStage_exceeds_final_stage_witness:
  "5 < retryStage (pending (run (on securePage
       [SetStation radioA, SetPlaying True, Render, notSupported, Render, notSupported,
        Render, notSupported, Render, notSupported, Render, notSupported, Render,
        notSupported]) mounted))"
proof -
  have six: "retryStage (pending (run (on securePage
       [SetStation radioA, SetPlaying True, Render, notSupported, Render, notSupported,
        Render, notSupported, Render, notSupported, Render, notSupported, Render,
        notSupported]) mounted)) = 6"
    by (rule retryStage_exceeds_final_stage [THEN conjunct2, THEN conjunct1])
  show ?thesis unfolding six by simp
qed

section \<open>Failure at the final stage\<close>

text \<open>
  C2, against the claim as stated, on a secure page. A station with HTTPS addresses has
  reached stage 5 and the element reports an error while \<open>audio.error\<close> is null: the
  reason shown is \<open>UNKNOWN\<close>, not \<open>OFFLINE\<close>. A station with a plain-HTTP address has
  reached stage 5 and the element reports the native network code 2: the reason shown is
  \<open>ACCESS\<close>, not \<open>NETWORK\<close>.
\<close>

theorem handlePlaybackError_reason_differs:
  "retryStage (rendered (run (on securePage
       [SetStation radioB, SetPlaying True, Render, notSupported, Render, notSupported,
        Render, notSupported, Render, notSupported, Render, notSupported, Render]) mounted)) = 5
   \<and> error (pending (run (on securePage
       [SetStation radioB, SetPlaying True, Render, notSupported, Render, notSupported,
        Render, notSupported, Render, notSupported, Render, notSupported, Render,
        MediaError None]) mounted))
     = Some \<lparr>message = ''This frequency is unreachable.'', type = UNKNOWN\<rparr>
   \<and> error (pending (run (on securePage
       [SetStation radioA, SetPlaying True, Render, notSupported, Render, notSupported,
        Render, notSupported, Render, notSupported, Render, notSupported, Render,
        MediaError (Some 2)]) mounted))
     = Some \<lparr>message = ''Security Block: Insecure stream.'', type = ACCESS\<rparr>"
  by (simp add: model_defs)

text \<open>
  C2, amended: when the element reports an error to a handler rendered at stage 5 or
  later, the stage is left as it is, buffering ends, and a failure is shown whose reason
  is \<open>ACCESS\<close> if the page is secure and the element's source starts with \<open>http://\<close>;
  otherwise \<open>UNKNOWN\<close> if there is no native error, \<open>NETWORK\<close> for code 2, \<open>DECODE\<close> for
  code 3 and \<open>OFFLINE\<close> for any other code.
\<close>

theorem handlePlaybackError_at_final_stage:
  assumes "5 \<le> retryStage c"
  shows "retryStage (handlePlaybackError e a mediaError c p) = retryStage p
     \<and> \<not> isBuffering (handlePlaybackError e a mediaError c p)
     \<and> map_option type (error (handlePlaybackError e a mediaError c p)) =
         Some (if protocol e = ''https:'' \<and> startsWith (src a) ''http://'' then ACCESS
               else if mediaError = None then UNKNOWN
               else if mediaError = Some 2 then NETWORK
               else if mediaError = Some 3 then DECODE
               else OFFLINE)"
  using assms by (auto simp: handlePlaybackError_def split: option.splits)

theorem handlePlaybackError_at_final_stage_witness:
  "(5::nat) \<le> retryStage \<lparr>station = Some radioB, isPlaying = True, error = None,
        isBuffering = True, isCorsBlocked = False, retryStage = 5\<rparr>
   \<and> map_option type (error (handlePlaybackError securePage
        \<lparr>crossOrigin = None, src = ''https://b.example/stream/;?cb=1730000000000'',
          hlsRef = None, audioCtxRef = True, analyserRef = True, sourceRef = True,
          listening = True, plays = []\<rparr>
        (Some 2)
        \<lparr>station = Some radioB, isPlaying = True, error = None,
          isBuffering = True, isCorsBlocked = False, retryStage = 5\<rparr>
        \<lparr>station = Some radioB, isPlaying = True, error = None,
          isBuffering = True, isCorsBlocked = False, retryStage = 5\<rparr>)) = Some NETWORK"
  using handlePlaybackError_at_final_stage [of
        "\<lparr>station = Some radioB, isPlaying = True, error = None,
          isBuffering = True, isCorsBlocked = False, retryStage = 5\<rparr>"
        securePage
        "\<lparr>crossOrigin = None, src = ''https://b.example/stream/;?cb=1730000000000'',
          hlsRef = None, audioCtxRef = True, analyserRef = True, sourceRef = True,
          listening = True, plays = []\<rparr>"
        "Some 2"
        "\<lparr>station = Some radioB, isPlaying = True, error = None,
          isBuffering = True, isCorsBlocked = False, retryStage = 5\<rparr>"]
  by (simp add: startsWith_def)

section \<open>Superseded play requests\<close>

text \<open>
  C3: when a play request is rejected with \<open>AbortError\<close>, the state the next render
  will see and the rendered snapshot are exactly what they were: no stage advance, no
  failure. Whenever the settling of a play request does change the stage, the request
  was rejected with another name.
\<close>

theorem abort_rejection_is_benign:
  "pending (step e (PlaySettled i (Rejected ''AbortError'')) s) = pending s
   \<and> rendered (step e (PlaySettled i (Rejected ''AbortError'')) s) = rendered s
   \<and> (retryStage (pending (step e (PlaySettled i outcome) s)) \<noteq> retryStage (pending s)
        \<longrightarrow> (\<exists>name. outcome = Rejected name \<and> name \<noteq> ''AbortError''))"
  by (auto simp: playSettled_def safePlay_settles_def
           split: play_outcome.splits play_request.splits)

theorem abort_rejection_is_benign_witness:
  "retryStage (pending (step securePage notSupported
       (run (on securePage [SetStation radioA, SetPlaying True, Render]) mounted)))
     \<noteq> retryStage (pending (run (on securePage [SetStation radioA, SetPlaying True, Render]) mounted))
   \<and> pending (step securePage (PlaySettled 0 (Rejected ''AbortError''))
       (run (on securePage [SetStation radioA, SetPlaying True, Render]) mounted))
     = pending (run (on securePage [SetStation radioA, SetPlaying True, Render]) mounted)"
  using abort_rejection_is_benign [of securePage 0
      "run (on securePage [SetStation radioA, SetPlaying True, Render]) mounted"
      "Rejected ''NotSupportedError''"]
  by (simp add: model_defs)

section \<open>Errors of the segmented-stream adapter\<close>





section \<open>Changing the station\<close>

text \<open>
  C6, evaluated on the code: station A has escalated to stage 3 when the user selects
  station B. In the render that follows, the source-attach effect runs before the reset
  effect and still reads stage 3: B's address is attached with the \<open>crossOrigin\<close>
  attribute removed and a play request is made, and only then is stage 0 queued. The
  attach at stage 0, with \<open>crossOrigin\<close> set, comes with the next render.
\<close>

theorem station_change_attaches_before_reset:
  "retryStage (rendered (run (on securePage
       [SetStation radioA, SetPlaying True, Render, notSupported, Render, notSupported,
        Render, notSupported, Render, SetStation radioB, Render]) mounted)) = 3
   \<and> audio (run (on securePage
       [SetStation radioA, SetPlaying True, Render, notSupported, Render, notSupported,
        Render, notSupported, Render, SetStation radioB, Render]) mounted)
     = \<lparr>crossOrigin = None, src = ''https://edge.b.example/stream'', hlsRef = None,
        audioCtxRef = True, analyserRef = True, sourceRef = True, listening = True,
        plays = [WithCatch, WithCatch]\<rparr>
   \<and> retryStage (pending (run (on securePage
       [SetStation radioA, SetPlaying True, Render, notSupported, Render, notSupported,
        Render, notSupported, Render, SetStation radioB, Render]) mounted)) = 0
   \<and> crossOrigin (audio (run (on securePage
       [SetStation radioA, SetPlaying True, Render, notSupported, Render, notSupported,
        Render, notSupported, Render, SetStation radioB, Render, Render]) mounted))
     = Some ''anonymous''"
  by (simp add: model_defs)

theorem station_change_attaches_before_reset_witness:
  "retryStage (rendered (run (on securePage
       [SetStation radioA, SetPlaying True, Render, notSupported, Render, notSupported,
        Render, notSupported, Render, SetStation radioB, Render]) mounted)) = 3"
  by (rule station_change_attaches_before_reset [THEN conjunct1])

section \<open>The analysis mode\<close>

lemma render_blocked:
  "isCorsBlocked (pending s) \<Longrightarrow>
     isCorsBlocked (pending (render e s)) \<and>
     audioCtxRef (audio (render e s)) = audioCtxRef (audio s) \<and>
     isCorsBlocked (rendered (render e s))"
  by (cases "station (pending s)")
     (simp_all add: render_def Let_def attachEffect_def visualizerEffect_def
        listenerEffect_def resetEffect_def)

lemma step_blocked:
  assumes b: "isCorsBlocked (pending s)"
  shows "isCorsBlocked (pending (step e ev s)) \<and>
     audioCtxRef (audio (step e ev s)) = audioCtxRef (audio s) \<and>
     (isCorsBlocked (rendered s) \<longrightarrow> isCorsBlocked (rendered (step e ev s)))"
proof (cases ev)
  case Render
  then show ?thesis using render_blocked [OF b, of e] by simp
next
  case (PlaySettled i outcome)
  then show ?thesis
    using b by (simp add: playSettled_def safePlay_settles_def
             split: play_outcome.splits play_request.splits)
qed (use b in \<open>simp_all add: handlePlaybackError_def hlsOnError_def handleCanPlay_def
       handleWaiting_def handleManualRetry_def onTogglePlay_def Let_def\<close>)

text \<open>
  C7: once the cross-origin flag is set, it stays set through every sequence of events,
  in the state and in every later render, whatever the browser would answer, and the
  analysis graph is not built again: \<open>audioCtxRef\<close> keeps its value. The flag therefore
  goes from false to true at most once.
\<close>

theorem isCorsBlocked_sticky:
  "isCorsBlocked (pending s) \<Longrightarrow>
     isCorsBlocked (pending (run evs s)) \<and>
     audioCtxRef (audio (run evs s)) = audioCtxRef (audio s) \<and>
     (isCorsBlocked (rendered s) \<longrightarrow> isCorsBlocked (rendered (run evs s)))"
proof (induction evs arbitrary: s)
  case Nil
  then show ?case by simp
next
  case (Cons x evs)
  obtain e ev where x: "x = (e, ev)" by (cases x)
  from step_blocked [OF Cons.prems, of e ev] Cons.IH [of "step e ev s"]
  show ?case by (simp add: x)
qed

theorem isCorsBlocked_sticky_witness:
  "isCorsBlocked (pending (run (on taintedPage [SetStation radioB, SetPlaying True, Render])
       mounted))
   \<and> isCorsBlocked (pending (run (on securePage [Render, CanPlay, TogglePlay, Render,
         TogglePlay, Render, SetStation radioA, Render, Render])
       (run (on taintedPage [SetStation radioB, SetPlaying True, Render]) mounted)))
   \<and> \<not> audioCtxRef (audio (run (on securePage [Render, CanPlay, TogglePlay, Render,
         TogglePlay, Render, SetStation radioA, Render, Render])
       (run (on taintedPage [SetStation radioB, SetPlaying True, Render]) mounted)))"
proof -
  have h: "isCorsBlocked (pending (run (on taintedPage
      [SetStation radioB, SetPlaying True, Render]) mounted))"
    by (simp add: model_defs)
  have a: "\<not> audioCtxRef (audio (run (on taintedPage
      [SetStation radioB, SetPlaying True, Render]) mounted))"
    by (simp add: model_defs)
  from isCorsBlocked_sticky [OF h, of "on securePage [Render, CanPlay, TogglePlay, Render,
         TogglePlay, Render, SetStation radioA, Render, Render]"] h a
  show ?thesis by blast
qed

section \<open>The manual reset\<close>

lemma render_of_restart:
  assumes t: "retryStage (pending t) = 0" "error (pending t) = None"
             "isBuffering (pending t)" "isPlaying (pending t)"
  shows "retryStage (rendered (render e' t)) = 0 \<and> error (rendered (render e' t)) = None
      \<and> retryStage (pending (render e' t)) = 0 \<and> error (pending (render e' t)) = None
      \<and> isBuffering (pending (render e' t)) \<and> isPlaying (pending (render e' t))
      \<and> station (rendered (render e' t)) = station (pending t)
      \<and> station (pending (render e' t)) = station (pending t)"
  using t
  by (cases "station (pending t)")
     (simp_all add: render_def Let_def attachEffect_def visualizerEffect_def
        initAudioContext_def listenerEffect_def resetEffect_def)

lemma render_attaches_first_stage:
  assumes t: "retryStage (pending t) = 0" "error (pending t) = None" "isPlaying (pending t)"
    and st: "station (pending t) = Some st"
    and failed: "error (rendered t) \<noteq> None"
  shows "crossOrigin (audio (render e' t)) = Some ''anonymous''
      \<and> (if includes_str (getUrlForStage (protocol e') (now e') st 0) ''.m3u8'' \<and> hlsSupported e'
          then hlsRef (audio (render e' t)) = Some (getUrlForStage (protocol e') (now e') st 0)
               \<and> src (audio (render e' t)) = []
               \<and> plays (audio (render e' t)) = plays (audio t)
          else hlsRef (audio (render e' t)) = None
               \<and> src (audio (render e' t)) = getUrlForStage (protocol e') (now e') st 0
               \<and> plays (audio (render e' t)) = plays (audio t) @ [WithCatch])"
proof -
  from failed obtain y where y: "error (rendered t) = Some y" by auto
  show ?thesis
    using t st y
    by (simp add: render_def Let_def attachEffect_def visualizerEffect_def
          initAudioContext_def listenerEffect_def resetEffect_def safePlay_starts_def)
qed

text \<open>
  C8: pressed on an up-to-date render, the reset button sets the stage to 0, clears the
  error, turns buffering on, leaves the playing intent on and keeps the station. The
  render that follows shows the same station at stage 0 with no error and keeps them,
  still buffering. When a station is selected and a failure was shown, that render
  attaches the station anew at stage 0: \<open>crossOrigin\<close> is \<open>anonymous\<close>, and the address
  resolved for stage 0 is given to the adapter, or to the element together with a new
  play request. The escalation starts again from its first stage.
\<close>

theorem handleManualRetry_restarts:
  assumes "isPlaying (rendered s) = isPlaying (pending s)"
  shows "retryStage (pending (step e ManualRetry s)) = 0
     \<and> error (pending (step e ManualRetry s)) = None
     \<and> isBuffering (pending (step e ManualRetry s))
     \<and> isPlaying (pending (step e ManualRetry s))
     \<and> station (pending (step e ManualRetry s)) = station (pending s)
     \<and> retryStage (rendered (render e' (step e ManualRetry s))) = 0
     \<and> error (rendered (render e' (step e ManualRetry s))) = None
     \<and> retryStage (pending (render e' (step e ManualRetry s))) = 0
     \<and> error (pending (render e' (step e ManualRetry s))) = None
     \<and> isBuffering (pending (render e' (step e ManualRetry s)))
     \<and> isPlaying (pending (render e' (step e ManualRetry s)))
     \<and> station (rendered (render e' (step e ManualRetry s))) = station (pending s)
     \<and> (station (pending s) = Some st \<and> error (rendered s) \<noteq> None \<longrightarrow>
          crossOrigin (audio (render e' (step e ManualRetry s))) = Some ''anonymous''
          \<and> (if includes_str (getUrlForStage (protocol e') (now e') st 0) ''.m3u8''
                 \<and> hlsSupported e'
              then hlsRef (audio (render e' (step e ManualRetry s)))
                     = Some (getUrlForStage (protocol e') (now e') st 0)
                   \<and> src (audio (render e' (step e ManualRetry s))) = []
                   \<and> plays (audio (render e' (step e ManualRetry s))) = plays (audio s)
              else hlsRef (audio (render e' (step e ManualRetry s))) = None
                   \<and> src (audio (render e' (step e ManualRetry s)))
                     = getUrlForStage (protocol e') (now e') st 0
                   \<and> plays (audio (render e' (step e ManualRetry s)))
                     = plays (audio s) @ [WithCatch]))"
proof -
  let ?t = "step e ManualRetry s"
  have p: "retryStage (pending ?t) = 0" "error (pending ?t) = None"
      "isBuffering (pending ?t)" "isPlaying (pending ?t)"
    using assms by (simp_all add: handleManualRetry_def onTogglePlay_def Let_def)
  have k: "station (pending ?t) = station (pending s)"
    by (simp add: handleManualRetry_def onTogglePlay_def Let_def)
  have f: "rendered ?t = rendered s" "audio ?t = audio s"
    by simp_all
  note r = render_of_restart [OF p, of e']
  have a: "station (pending s) = Some st \<and> error (rendered s) \<noteq> None \<longrightarrow>
          crossOrigin (audio (render e' ?t)) = Some ''anonymous''
          \<and> (if includes_str (getUrlForStage (protocol e') (now e') st 0) ''.m3u8''
                 \<and> hlsSupported e'
              then hlsRef (audio (render e' ?t))
                     = Some (getUrlForStage (protocol e') (now e') st 0)
                   \<and> src (audio (render e' ?t)) = []
                   \<and> plays (audio (render e' ?t)) = plays (audio s)
              else hlsRef (audio (render e' ?t)) = None
                   \<and> src (audio (render e' ?t))
                     = getUrlForStage (protocol e') (now e') st 0
                   \<and> plays (audio (render e' ?t))
                     = plays (audio s) @ [WithCatch])"
  proof
    assume h: "station (pending s) = Some st \<and> error (rendered s) \<noteq> None"
    then have st: "station (pending ?t) = Some st" and fl: "error (rendered ?t) \<noteq> None"
      using k f by simp_all
    from render_attaches_first_stage [OF p(1) p(2) p(4) st fl, of e']
    show "crossOrigin (audio (render e' ?t)) = Some ''anonymous''
          \<and> (if includes_str (getUrlForStage (protocol e') (now e') st 0) ''.m3u8''
                 \<and> hlsSupported e'
              then hlsRef (audio (render e' ?t))
                     = Some (getUrlForStage (protocol e') (now e') st 0)
                   \<and> src (audio (render e' ?t)) = []
                   \<and> plays (audio (render e' ?t)) = plays (audio s)
              else hlsRef (audio (render e' ?t)) = None
                   \<and> src (audio (render e' ?t))
                     = getUrlForStage (protocol e') (now e') st 0
                   \<and> plays (audio (render e' ?t))
                     = plays (audio s) @ [WithCatch])"
      unfolding f(2) .
  qed
  from p k r a show ?thesis by (simp only: k)
qed


theorem handleManualRetry_restarts_witness:
  "isPlaying (rendered (run (on securePage
       [SetStation radioB, SetPlaying True, Render, notSupported, Render, notSupported,
        Render, notSupported, Render, notSupported, Render, notSupported, Render,
        MediaError None, Render, TogglePlay, Render]) mounted))
     = isPlaying (pending (run (on securePage
       [SetStation radioB, SetPlaying True, Render, notSupported, Render, notSupported,
        Render, notSupported, Render, notSupported, Render, notSupported, Render,
        MediaError None, Render, TogglePlay, Render]) mounted))
   \<and> station (pending (run (on securePage
       [SetStation radioB, SetPlaying True, Render, notSupported, Render, notSupported,
        Render, notSupported, Render, notSupported, Render, notSupported, Render,
        MediaError None, Render, TogglePlay, Render]) mounted)) = Some radioB
   \<and> error (rendered (run (on securePage
       [SetStation radioB, SetPlaying True, Render, notSupported, Render, notSupported,
        Render, notSupported, Render, notSupported, Render, notSupported, Render,
        MediaError None, Render, TogglePlay, Render]) mounted)) \<noteq> None
   \<and> retryStage (pending (run (on securePage
       [SetStation radioB, SetPlaying True, Render, notSupported, Render, notSupported,
        Render, notSupported, Render, notSupported, Render, notSupported, Render,
        MediaError None, Render, TogglePlay, Render]) mounted)) = 5
   \<and> retryStage (pending (step securePage ManualRetry (run (on securePage
       [SetStation radioB, SetPlaying True, Render, notSupported, Render, notSupported,
        Render, notSupported, Render, notSupported, Render, notSupported, Render,
        MediaError None, Render, TogglePlay, Render]) mounted))) = 0
   \<and> isPlaying (pending (step securePage ManualRetry (run (on securePage
       [SetStation radioB, SetPlaying True, Render, notSupported, Render, notSupported,
        Render, notSupported, Render, notSupported, Render, notSupported, Render,
        MediaError None, Render, TogglePlay, Render]) mounted)))
   \<and> crossOrigin (audio (render securePage (step securePage ManualRetry (run (on securePage
       [SetStation radioB, SetPlaying True, Render, notSupported, Render, notSupported,
        Render, notSupported, Render, notSupported, Render, notSupported, Render,
        MediaError None, Render, TogglePlay, Render]) mounted)))) = Some ''anonymous''
   \<and> src (audio (render securePage (step securePage ManualRetry (run (on securePage
       [SetStation radioB, SetPlaying True, Render, notSupported, Render, notSupported,
        Render, notSupported, Render, notSupported, Render, notSupported, Render,
        MediaError None, Render, TogglePlay, Render]) mounted))))
     = ''https://edge.b.example/stream''"
proof -
  define S where "S = run (on securePage
       [SetStation radioB, SetPlaying True, Render, notSupported, Render, notSupported,
        Render, notSupported, Render, notSupported, Render, notSupported, Render,
        MediaError None, Render, TogglePlay, Render]) mounted"
  have h: "isPlaying (rendered S) = isPlaying (pending S)"
    by (simp add: S_def model_defs)
  have f: "station (pending S) = Some radioB" "error (rendered S) \<noteq> None"
      "retryStage (pending S) = 5"
    by (simp_all add: S_def model_defs)
  have u: "getUrlForStage (protocol securePage) (now securePage) radioB 0
      = ''https://edge.b.example/stream''"
    by (simp add: getUrlForStage_def Let_def startsWith_def)
  have m: "\<not> includes_str ''https://edge.b.example/stream'' ''.m3u8''"
    by (simp add: startsWith_def)
  from handleManualRetry_restarts [OF h, of securePage securePage radioB] h f
  have "isPlaying (rendered S) = isPlaying (pending S)
   \<and> station (pending S) = Some radioB
   \<and> error (rendered S) \<noteq> None
   \<and> retryStage (pending S) = 5
   \<and> retryStage (pending (step securePage ManualRetry S)) = 0
   \<and> isPlaying (pending (step securePage ManualRetry S))
   \<and> crossOrigin (audio (render securePage (step securePage ManualRetry S)))
       = Some ''anonymous''
   \<and> src (audio (render securePage (step securePage ManualRetry S)))
       = ''https://edge.b.example/stream''"
    unfolding u using m by (simp del: step.simps)
  then show ?thesis unfolding S_def .
qed

section \<open>The cross-origin policy of an attach\<close>







section \<open>Further properties of the escalation\<close>

text \<open>
  X1: under an error of the element, an error of the adapter or the settling of a play
  request, the stage held in the state never decreases and grows by at most one.
\<close>

theorem error_events_never_lower_stage:
  "ev = MediaError m \<or> ev = HlsError d \<or> ev = PlaySettled i outcome \<Longrightarrow>
     retryStage (pending s) \<le> retryStage (pending (step e ev s))
     \<and> retryStage (pending (step e ev s)) \<le> retryStage (pending s) + 1"
  by (auto simp: handlePlaybackError_def hlsOnError_def playSettled_def safePlay_settles_def
           split: play_outcome.splits play_request.splits)

theorem error_events_never_lower_stage_witness:
  "retryStage (pending (run (on securePage [SetStation radioH, SetPlaying True, Render])
       mounted))
     \<le> retryStage (pending (step securePage (HlsError \<lparr>fatal = True, errorType = MUX_ERROR\<rparr>)
       (run (on securePage [SetStation radioH, SetPlaying True, Render]) mounted)))"
  using error_events_never_lower_stage [of
      "HlsError \<lparr>fatal = True, errorType = MUX_ERROR\<rparr>" None
      "\<lparr>fatal = True, errorType = MUX_ERROR\<rparr>" 0 Fulfilled
      "run (on securePage [SetStation radioH, SetPlaying True, Render]) mounted" securePage]
  by blast

text \<open>
  X2: an error of the element, handled on an up-to-date render, never lifts the stage above
  5: the handler of \<open>error\<close> events is the one place that tests the stage.
\<close>

theorem element_error_keeps_stage_bounded:
  "retryStage (rendered s) = retryStage (pending s) \<Longrightarrow> retryStage (pending s) \<le> 5 \<Longrightarrow>
     retryStage (pending (step e (MediaError m) s)) \<le> 5"
  by (simp add: handlePlaybackError_def)

theorem element_error_keeps_stage_bounded_witness:
  "retryStage (pending (step securePage (MediaError (Some 4))
       (run (on securePage [SetStation radioA, SetPlaying True, Render, notSupported, Render])
          mounted))) \<le> 5"
proof -
  have h: "retryStage (rendered (run (on securePage
        [SetStation radioA, SetPlaying True, Render, notSupported, Render]) mounted))
      = retryStage (pending (run (on securePage
        [SetStation radioA, SetPlaying True, Render, notSupported, Render]) mounted))"
    by (simp add: model_defs)
  have b: "retryStage (pending (run (on securePage
        [SetStation radioA, SetPlaying True, Render, notSupported, Render]) mounted)) \<le> 5"
    by (simp add: model_defs)
  show ?thesis by (rule element_error_keeps_stage_bounded [OF h b])
qed

text \<open>
  X3: the render that follows the selection of a station with another identity queues stage
  0 and a cleared error, and shows the new station.
\<close>

theorem station_change_queues_reset:
  "map_option stationuuid (station (pending s)) \<noteq> map_option stationuuid (station (rendered s))
     \<Longrightarrow> retryStage (pending (render e s)) = 0
         \<and> error (pending (render e s)) = None
         \<and> station (rendered (render e s)) = station (pending s)"
  by (simp add: render_def Let_def resetEffect_def split: prod.splits)

theorem station_change_queues_reset_witness:
  "retryStage (pending (render securePage (step securePage (SetStation radioB)
       (run (on securePage [SetStation radioA, SetPlaying True, Render, notSupported, Render])
          mounted)))) = 0"
proof -
  have h: "map_option stationuuid (station (pending (step securePage (SetStation radioB)
       (run (on securePage [SetStation radioA, SetPlaying True, Render, notSupported, Render])
          mounted))))
     \<noteq> map_option stationuuid (station (rendered (step securePage (SetStation radioB)
       (run (on securePage [SetStation radioA, SetPlaying True, Render, notSupported, Render])
          mounted))))"
    by (simp add: model_defs)
  show ?thesis by (rule station_change_queues_reset [OF h, THEN conjunct1])
qed


end
